theory Spec2Isabelle
  imports
    Complex_Main
    "HOL-Library.Word"
    "HOL-Library.Signed_Division"
    "HOL-Library.AList"
    "HOL-Library.Char_ord"
    "HOL-Library.List_Lexorder"
    "HOL-Library.Product_Lexorder"
begin

section \<open>The ad aggregate (internal/domain/ad)\<close>

text \<open>
  \<^verbatim>\<open>time.Time\<close> values are nanoseconds since the Unix epoch and \<^verbatim>\<open>time.Duration\<close>
  values are nanoseconds, both as unbounded integers. Go's \<^verbatim>\<open>int\<close> fields (priority,
  version) are unbounded integers as well: no claim depends on 64-bit overflow of them.
\<close>

type_synonym time = int
type_synonym duration = int
type_synonym Priority = int

datatype AdStatus = AdStatusQueued | AdStatusProcessing | AdStatusCompleted | AdStatusFailed

definition PriorityLow :: Priority where "PriorityLow = 1"
definition PriorityNormal :: Priority where "PriorityNormal = 3"
definition PriorityHigh :: Priority where "PriorityHigh = 5"

definition IsValid :: "Priority \<Rightarrow> bool" where
  "IsValid p = (p \<ge> 1 \<and> p \<le> 5)"

record Ad =
  ad_id :: string
  title :: string
  gameFamily :: string
  targetAudience :: "string list"
  priority :: Priority
  maxWaitTime :: duration
  status :: AdStatus
  createdAt :: time
  processingStartedAt :: "time option"
  processedAt :: "time option"
  queuePosition :: "int option"
  version :: int

datatype ad_error =
    ErrInvalidTitle
  | ErrInvalidGameFamily
  | ErrInvalidTargetAudience
  | ErrInvalidPriority
  | ErrInvalidStatusTransition
  | ErrCannotChangePriorityAfterProcessing

text \<open>
  \<^verbatim>\<open>Factory.CreateAd\<close>. The fresh UUID and the clock reading are parameters.
\<close>

definition CreateAd ::
  "string \<Rightarrow> time \<Rightarrow> string \<Rightarrow> string \<Rightarrow> string list \<Rightarrow> Priority \<Rightarrow> duration \<Rightarrow> ad_error + Ad" where
  "CreateAd newId now ttl family audience p mw =
     (if ttl = [] then Inl ErrInvalidTitle
      else if family = [] then Inl ErrInvalidGameFamily
      else if length audience = 0 then Inl ErrInvalidTargetAudience
      else if \<not> IsValid p then Inl ErrInvalidPriority
      else Inr \<lparr> ad_id = newId, title = ttl, gameFamily = family, targetAudience = audience,
                 priority = p, maxWaitTime = mw, status = AdStatusQueued, createdAt = now,
                 processingStartedAt = None, processedAt = None, queuePosition = None,
                 version = 1 \<rparr>)"

text \<open>
  The business methods mutate the receiver and return an error value. The model returns the
  receiver after the call together with the error (\<open>None\<close> is Go's \<^verbatim>\<open>nil\<close>).
\<close>

definition StartProcessing :: "time \<Rightarrow> Ad \<Rightarrow> Ad \<times> ad_error option" where
  "StartProcessing now a =
     (if status a \<noteq> AdStatusQueued then (a, Some ErrInvalidStatusTransition)
      else (a\<lparr> status := AdStatusProcessing, processingStartedAt := Some now,
                queuePosition := None, version := version a + 1 \<rparr>, None))"

definition CompleteProcessing :: "time \<Rightarrow> Ad \<Rightarrow> Ad \<times> ad_error option" where
  "CompleteProcessing now a =
     (if status a \<noteq> AdStatusProcessing then (a, Some ErrInvalidStatusTransition)
      else (a\<lparr> status := AdStatusCompleted, processedAt := Some now,
                version := version a + 1 \<rparr>, None))"

definition FailProcessing :: "Ad \<Rightarrow> Ad \<times> ad_error option" where
  "FailProcessing a =
     (if status a \<noteq> AdStatusProcessing then (a, Some ErrInvalidStatusTransition)
      else (a\<lparr> status := AdStatusFailed, version := version a + 1 \<rparr>, None))"

definition ChangePriority :: "Priority \<Rightarrow> Ad \<Rightarrow> Ad \<times> ad_error option" where
  "ChangePriority newPriority a =
     (if \<not> IsValid newPriority then (a, Some ErrInvalidPriority)
      else if status a = AdStatusProcessing \<or> status a = AdStatusCompleted
        then (a, Some ErrCannotChangePriorityAfterProcessing)
      else (a\<lparr> priority := newPriority, version := version a + 1 \<rparr>, None))"

text \<open>An ad as the factory builds it, used for concrete evaluations.\<close>

definition sample_ad :: Ad where
  "sample_ad =
     \<lparr> ad_id = ''3f2b8c1e-0000-4000-8000-000000000001'', title = ''Banner'',
       gameFamily = ''RPG'', targetAudience = [''teens''], priority = 2,
       maxWaitTime = 300000000000, status = AdStatusQueued, createdAt = 1700000000000000000,
       processingStartedAt = None, processedAt = None, queuePosition = None, version = 1 \<rparr>"

section \<open>The in-memory ad repository (internal/infrastructure/persistence)\<close>

text \<open>
  \<^verbatim>\<open>MemoryAdRepository.ads\<close> maps the id string to the stored ad. The repository holds
  pointers, so a method called on a stored ad changes the stored ad: the model writes the
  receiver back after each call.
\<close>

datatype repo_error = FailedToUpdatePriority string ad_error

fun UpdatePriorityBatch ::
  "(string \<rightharpoonup> Ad) \<Rightarrow> string list \<Rightarrow> Priority \<Rightarrow> (string \<rightharpoonup> Ad) \<times> repo_error option" where
  "UpdatePriorityBatch ads [] newPriority = (ads, None)"
| "UpdatePriorityBatch ads (i # ids) newPriority =
     (case ads i of
        None \<Rightarrow> UpdatePriorityBatch ads ids newPriority
      | Some adEntity \<Rightarrow>
          (case ChangePriority newPriority adEntity of
             (adEntity', Some err) \<Rightarrow> (ads(i \<mapsto> adEntity'), Some (FailedToUpdatePriority i err))
           | (adEntity', None) \<Rightarrow> UpdatePriorityBatch (ads(i \<mapsto> adEntity')) ids newPriority))"

section \<open>The PostgreSQL ad repository\<close>

text \<open>
  The table \<^verbatim>\<open>ads\<close> maps the primary key to its row. A statement of the transaction can fail
  in the database; which ones do is a parameter: \<open>exec_fails k\<close> tells whether the \<open>k\<close>-th
  \<^verbatim>\<open>ExecContext\<close> of the loop fails. The statement
  \<^verbatim>\<open>UPDATE ads SET priority = $1, version = version + 1 WHERE ad_id = $2 AND status = 'queued'\<close>
  touches the row of that key when it is queued; the column's check constraint
  \<^verbatim>\<open>priority BETWEEN 1 AND 5\<close> makes the statement fail otherwise.
\<close>

datatype db_error = BeginTxFailed | ExecFailed | CommitFailed

record db_faults =
  begin_fails :: bool
  exec_fails :: "nat \<Rightarrow> bool"
  commit_fails :: bool

definition update_queued_row :: "(string \<rightharpoonup> Ad) \<Rightarrow> string \<Rightarrow> Priority \<Rightarrow> db_error + (string \<rightharpoonup> Ad)" where
  "update_queued_row tbl i newPriority =
     (case tbl i of
        None \<Rightarrow> Inr tbl
      | Some row \<Rightarrow>
          if status row \<noteq> AdStatusQueued then Inr tbl
          else if \<not> IsValid newPriority then Inl ExecFailed
          else Inr (tbl(i \<mapsto> row\<lparr> priority := newPriority, version := version row + 1 \<rparr>)))"

fun exec_updates ::
  "(nat \<Rightarrow> bool) \<Rightarrow> nat \<Rightarrow> (string \<rightharpoonup> Ad) \<Rightarrow> string list \<Rightarrow> Priority \<Rightarrow> db_error + (string \<rightharpoonup> Ad)" where
  "exec_updates fails k tx [] newPriority = Inr tx"
| "exec_updates fails k tx (i # ids) newPriority =
     (if fails k then Inl ExecFailed
      else (case update_queued_row tx i newPriority of
              Inl e \<Rightarrow> Inl e
            | Inr tx' \<Rightarrow> exec_updates fails (Suc k) tx' ids newPriority))"

definition Postgres_UpdatePriorityBatch ::
  "db_faults \<Rightarrow> (string \<rightharpoonup> Ad) \<Rightarrow> string list \<Rightarrow> Priority \<Rightarrow> (string \<rightharpoonup> Ad) \<times> db_error option" where
  "Postgres_UpdatePriorityBatch faults tbl ids newPriority =
     (if length ids = 0 then (tbl, None)
      else if begin_fails faults then (tbl, Some BeginTxFailed)
      else (case exec_updates (exec_fails faults) 0 tbl ids newPriority of
              Inl e \<Rightarrow> (tbl, Some e)
            | Inr tx \<Rightarrow> if commit_fails faults then (tbl, Some CommitFailed) else (tx, None)))"

text \<open>What the \<^verbatim>\<open>UPDATE\<close> statement makes of the row of a key.\<close>

definition queued_row_updated :: "Priority \<Rightarrow> Ad option \<Rightarrow> Ad option" where
  "queued_row_updated newPriority row =
     (case row of
        None \<Rightarrow> None
      | Some a \<Rightarrow>
          if status a = AdStatusQueued
          then Some (a\<lparr> priority := newPriority, version := version a + 1 \<rparr>)
          else Some a)"

section \<open>The queue item (internal/domain/queue)\<close>

definition Unix :: "time \<Rightarrow> int" where
  "Unix t = t div 1000000000"

text \<open>
  The package-level \<^verbatim>\<open>calculateScore\<close> of the queue package: a \<^verbatim>\<open>float64\<close>, here an exact
  real number (rounding is not modelled).
\<close>

definition queue_calculateScore :: "Priority \<Rightarrow> time \<Rightarrow> real" where
  "queue_calculateScore p timestamp =
     (let baseScore = of_int p * 1000000;
          timestampBoost = of_int (Unix timestamp) / 1000000000
      in baseScore + timestampBoost)"

record QueueItem =
  item_adID :: string
  item_priority :: Priority
  item_timestamp :: time
  item_score :: real

definition NewQueueItem :: "string \<Rightarrow> Priority \<Rightarrow> time \<Rightarrow> QueueItem" where
  "NewQueueItem adID p timestamp =
     \<lparr> item_adID = adID, item_priority = p, item_timestamp = timestamp,
       item_score = queue_calculateScore p timestamp \<rparr>"

record QueueConfig =
  AntiStarvationEnabled :: bool
  MaxWaitTime :: duration
  WorkerCount :: int
  BatchSize :: int
  ProcessingTimeout :: duration

section \<open>The Redis queue manager (internal/infrastructure/cache)\<close>

text \<open>
  A Redis sorted set is an association list from member to score with one entry per member
  (\<open>distinct (map fst zs)\<close>). Scores are \<^verbatim>\<open>float64\<close> in Redis and in the Go client; every score
  the manager computes from a priority and a Unix time is an integer far below \<open>2 ^ 53\<close>, where
  \<^verbatim>\<open>float64\<close> arithmetic is exact, so the model uses integers. Redis orders a sorted set by
  score and, for equal scores, by member. Every command succeeds: a connection failure of the
  Redis client is not modelled.
\<close>

type_synonym zset = "(string \<times> int) list"

definition ZAdd :: "string \<Rightarrow> int \<Rightarrow> zset \<Rightarrow> zset" where
  "ZAdd member score zs = AList.update member score zs"

definition ZRem :: "string \<Rightarrow> zset \<Rightarrow> zset" where
  "ZRem member zs = AList.delete member zs"

definition ZScore :: "zset \<Rightarrow> string \<Rightarrow> int option" where
  "ZScore zs member = map_of zs member"

definition ZRangeAll :: "zset \<Rightarrow> zset" where
  "ZRangeAll zs = sort_key (\<lambda>e. (snd e, fst e)) zs"

definition ZRevRangeWithScores :: "zset \<Rightarrow> nat \<Rightarrow> nat \<Rightarrow> zset" where
  "ZRevRangeWithScores zs start stop = take (Suc stop - start) (drop start (rev (ZRangeAll zs)))"

definition ZCountAbove :: "zset \<Rightarrow> int \<Rightarrow> nat" where
  "ZCountAbove zs lo = length (filter (\<lambda>e. lo < snd e) zs)"

record RedisQueueManager =
  client :: "int \<Rightarrow> zset"
  config :: QueueConfig
  shardCount :: int

datatype queue_error =
    AdNotFoundInQueue string
  | InvalidAdIDInQueue string
  | PanicDivideByZero

text \<open>
  \<^verbatim>\<open>getShardKey\<close>: Go's \<^verbatim>\<open>int\<close> is 64 bits wide and wraps around. The loop ranges over the
  runes of the id; ids are UUID strings, where a rune is a byte. \<^verbatim>\<open>%\<close> truncates towards
  zero and panics on a zero divisor. The result is the number \<open>i\<close> of the key
  \<^verbatim>\<open>queue:shard:i\<close>.
\<close>

fun hashLoop :: "64 word \<Rightarrow> string \<Rightarrow> 64 word" where
  "hashLoop hash [] = hash"
| "hashLoop hash (c # cs) = hashLoop (of_nat (of_char c) + (push_bit 5 hash - hash)) cs"

definition getShardKey :: "RedisQueueManager \<Rightarrow> string \<Rightarrow> int option" where
  "getShardKey r adID =
     (if shardCount r = 0 then None
      else let shard = sint (hashLoop 0 adID) smod shardCount r
           in Some (if shard < 0 then - shard else shard))"

definition calculateScore :: "Priority \<Rightarrow> time \<Rightarrow> int" where
  "calculateScore p timestamp =
     (let baseScore = p * 10000000000;
          maxTime = 9999999999;
          timestampScore = maxTime - Unix timestamp
      in baseScore + timestampScore)"

definition Enqueue ::
  "time \<Rightarrow> RedisQueueManager \<Rightarrow> string \<Rightarrow> Priority \<Rightarrow> RedisQueueManager \<times> queue_error option" where
  "Enqueue now r adID p =
     (case getShardKey r adID of
        None \<Rightarrow> (r, Some PanicDivideByZero)
      | Some shardKey \<Rightarrow>
          (r\<lparr> client := (client r)(shardKey := ZAdd adID (calculateScore p now) (client r shardKey)) \<rparr>,
           None))"

text \<open>
  \<^verbatim>\<open>Dequeue\<close>: the loop over the shards keeps the best head seen so far with its shard.
  \<^verbatim>\<open>uuid.Parse\<close> is a parameter.
\<close>

fun peekShards ::
  "(int \<Rightarrow> zset) \<Rightarrow> int list \<Rightarrow> ((string \<times> int) \<times> int) option \<Rightarrow> ((string \<times> int) \<times> int) option" where
  "peekShards cl [] best = best"
| "peekShards cl (i # is) best =
     (case ZRevRangeWithScores (cl i) 0 0 of
        [] \<Rightarrow> peekShards cl is best
      | x # _ \<Rightarrow>
          (case best of
             None \<Rightarrow> peekShards cl is (Some (x, i))
           | Some (bestItem, bestShardKey) \<Rightarrow>
               if snd x > snd bestItem then peekShards cl is (Some (x, i))
               else peekShards cl is best))"

definition Dequeue ::
  "(string \<Rightarrow> bool) \<Rightarrow> time \<Rightarrow> RedisQueueManager
     \<Rightarrow> RedisQueueManager \<times> QueueItem option \<times> queue_error option" where
  "Dequeue uuidParses now r =
     (case peekShards (client r) [0 .. shardCount r - 1] None of
        None \<Rightarrow> (r, None, None)
      | Some (bestItem, bestShardKey) \<Rightarrow>
          let r' = r\<lparr> client := (client r)(bestShardKey := ZRem (fst bestItem) (client r bestShardKey)) \<rparr>
          in if \<not> uuidParses (fst bestItem) then (r', None, Some (InvalidAdIDInQueue (fst bestItem)))
             else (r', Some (NewQueueItem (fst bestItem) (snd bestItem sdiv 10000000000) now), None))"

definition UpdatePriority ::
  "RedisQueueManager \<Rightarrow> string \<Rightarrow> Priority \<Rightarrow> RedisQueueManager \<times> queue_error option" where
  "UpdatePriority r adID newPriority =
     (case getShardKey r adID of
        None \<Rightarrow> (r, Some PanicDivideByZero)
      | Some shardKey \<Rightarrow>
          (case ZScore (client r shardKey) adID of
             None \<Rightarrow> (r, Some (AdNotFoundInQueue adID))
           | Some currentScore \<Rightarrow>
               let timestampPart = currentScore - (currentScore sdiv 10000000000) * 10000000000;
                   newScore = newPriority * 10000000000 + timestampPart
               in (r\<lparr> client := (client r)(shardKey := ZAdd adID newScore (client r shardKey)) \<rparr>,
                   None)))"

definition GetPosition :: "RedisQueueManager \<Rightarrow> string \<Rightarrow> int \<times> queue_error option" where
  "GetPosition r adID =
     (case getShardKey r adID of
        None \<Rightarrow> (- 1, Some PanicDivideByZero)
      | Some shardKey \<Rightarrow>
          (case ZScore (client r shardKey) adID of
             None \<Rightarrow> (- 1, Some (AdNotFoundInQueue adID))
           | Some targetScore \<Rightarrow>
               (fold (\<lambda>i position. position + int (ZCountAbove (client r i) targetScore))
                  [0 .. shardCount r - 1] 0 + 1,
                None)))"

text \<open>
  \<^verbatim>\<open>ApplyAntiStarvation\<close>: the body of the inner loop for one entry of the snapshot that
  \<^verbatim>\<open>ZRangeWithScores\<close> returned, then the two loops. \<open>now\<close> is the clock reading of
  \<^verbatim>\<open>time.Since\<close> for that entry. \<^verbatim>\<open>int(age.Minutes() / 5)\<close> is the age in nanoseconds
  divided by five minutes, truncated towards zero (exactly, without \<^verbatim>\<open>float64\<close> rounding).
\<close>

definition boostItem :: "QueueConfig \<Rightarrow> time \<Rightarrow> string \<times> int \<Rightarrow> zset \<Rightarrow> zset" where
  "boostItem cfg now item zs =
     (let score = snd item;
          p = score sdiv 10000000000;
          timestampPart = score - p * 10000000000;
          maxTime = 9999999999;
          actualTimestamp = maxTime - timestampPart;
          age = now - actualTimestamp * 1000000000
      in if age > MaxWaitTime cfg \<and> p < PriorityHigh then
           let boost = age sdiv 300000000000;
               newPriority = p + boost;
               newPriority' = (if newPriority > PriorityHigh then PriorityHigh else newPriority);
               newScore = newPriority' * 10000000000 + timestampPart
           in ZAdd (fst item) newScore zs
         else zs)"

definition boostShard :: "QueueConfig \<Rightarrow> (string \<Rightarrow> time) \<Rightarrow> zset \<Rightarrow> zset" where
  "boostShard cfg clock zs = fold (\<lambda>item acc. boostItem cfg (clock (fst item)) item acc) (ZRangeAll zs) zs"

definition ApplyAntiStarvation ::
  "(int \<Rightarrow> string \<Rightarrow> time) \<Rightarrow> RedisQueueManager \<Rightarrow> RedisQueueManager \<times> queue_error option" where
  "ApplyAntiStarvation clock r =
     (if \<not> AntiStarvationEnabled (config r) then (r, None)
      else (fold (\<lambda>i r'. r'\<lparr> client := (client r')(i := boostShard (config r) (clock i) (client r' i)) \<rparr>)
              [0 .. shardCount r - 1] r,
            None))"

text \<open>\<^verbatim>\<open>Ad.CalculateEffectivePriority\<close> with \<^verbatim>\<open>WaitTime\<close> and \<^verbatim>\<open>IsStarving\<close>.\<close>

definition WaitTime :: "time \<Rightarrow> Ad \<Rightarrow> duration" where
  "WaitTime now a =
     (case processingStartedAt a of Some t \<Rightarrow> t - createdAt a | None \<Rightarrow> now - createdAt a)"

definition IsStarving :: "time \<Rightarrow> Ad \<Rightarrow> bool" where
  "IsStarving now a = (status a = AdStatusQueued \<and> WaitTime now a > maxWaitTime a)"

definition CalculateEffectivePriority :: "time \<Rightarrow> Ad \<Rightarrow> bool \<Rightarrow> Priority" where
  "CalculateEffectivePriority now a antiStarvationEnabled =
     (if \<not> antiStarvationEnabled then priority a
      else if IsStarving now a then
        let waitOverrun = WaitTime now a - maxWaitTime a;
            boost = waitOverrun sdiv 300000000000;
            effectivePriority = priority a + boost
        in (if effectivePriority > PriorityHigh then PriorityHigh else effectivePriority)
      else priority a)"

section \<open>Commands (internal/domain/command) and the mock parser\<close>

text \<open>
  A parameter value is a Go \<^verbatim>\<open>interface{}\<close>: the type assertions of the getters tell an
  \<^verbatim>\<open>int\<close>, a \<^verbatim>\<open>float64\<close> and a \<^verbatim>\<open>string\<close> from anything else. A \<^verbatim>\<open>float64\<close> is an exact
  real number here, and \<^verbatim>\<open>int(f)\<close> truncates it towards zero. A getter's result
  \<^verbatim>\<open>(value, true)\<close> is \<open>Some value\<close>, and \<^verbatim>\<open>(zero, false)\<close> is \<open>None\<close>.
\<close>

datatype param_value = IntValue int | Float64Value real | StringValue string | OtherValue

datatype CommandType =
    CommandTypeQueueModification
  | CommandTypeSystemConfiguration
  | CommandTypeStatusQuery
  | CommandTypeAnalytics

datatype CommandStatus =
    CommandStatusPending
  | CommandStatusExecuting
  | CommandStatusExecuted
  | CommandStatusFailed
  | CommandStatusInvalid

record Command =
  command_id :: string
  originalText :: string
  commandType :: CommandType
  intent :: string
  parameters :: "string \<rightharpoonup> param_value"
  command_status :: CommandStatus
  command_error :: string
  command_createdAt :: time
  executedAt :: "time option"
  executionTime :: "duration option"

definition NewCommand ::
  "string \<Rightarrow> time \<Rightarrow> string \<Rightarrow> CommandType \<Rightarrow> string \<Rightarrow> (string \<rightharpoonup> param_value) \<Rightarrow> Command" where
  "NewCommand newId now text ty intnt params =
     \<lparr> command_id = newId, originalText = text, commandType = ty, intent = intnt,
       parameters = params, command_status = CommandStatusPending, command_error = [],
       command_createdAt = now, executedAt = None, executionTime = None \<rparr>"

definition StartExecution :: "Command \<Rightarrow> Command" where
  "StartExecution c = c\<lparr> command_status := CommandStatusExecuting \<rparr>"

definition FailExecution :: "time \<Rightarrow> string \<Rightarrow> Command \<Rightarrow> Command" where
  "FailExecution now errorMsg c =
     c\<lparr> command_status := CommandStatusFailed, command_error := errorMsg,
        executedAt := Some now, executionTime := Some (now - command_createdAt c) \<rparr>"

definition MarkInvalid :: "string \<Rightarrow> Command \<Rightarrow> Command" where
  "MarkInvalid reason c = c\<lparr> command_status := CommandStatusInvalid, command_error := reason \<rparr>"

definition truncate_float :: "real \<Rightarrow> int" where
  "truncate_float f = (if f \<ge> 0 then \<lfloor>f\<rfloor> else \<lceil>f\<rceil>)"

definition GetStringParameter :: "Command \<Rightarrow> string \<Rightarrow> string option" where
  "GetStringParameter c key =
     (case parameters c key of Some (StringValue str) \<Rightarrow> Some str | _ \<Rightarrow> None)"

definition GetIntParameter :: "Command \<Rightarrow> string \<Rightarrow> int option" where
  "GetIntParameter c key =
     (case parameters c key of
        Some (IntValue i) \<Rightarrow> Some i
      | Some (Float64Value f) \<Rightarrow> Some (truncate_float f)
      | _ \<Rightarrow> None)"

definition GetPriorityParameter :: "Command \<Rightarrow> string \<Rightarrow> Priority option" where
  "GetPriorityParameter c key =
     (case GetIntParameter c key of
        Some i \<Rightarrow> if IsValid i then Some i else None
      | None \<Rightarrow> None)"

text \<open>\<^verbatim>\<open>MockCommandParser.ValidateCommand\<close>; the result is the error's message, \<open>None\<close> for \<^verbatim>\<open>nil\<close>.\<close>

definition ValidateCommand :: "Command \<Rightarrow> string option" where
  "ValidateCommand cmd =
     (if intent cmd = ''change_priority_by_game_family'' then
        (if GetPriorityParameter cmd ''priority'' = None
           then Some ''missing or invalid priority parameter''
         else if GetStringParameter cmd ''gameFamily'' = None
           then Some ''missing gameFamily parameter''
         else None)
      else if intent cmd = ''change_priority_by_age'' then
        (if GetPriorityParameter cmd ''priority'' = None
           then Some ''missing or invalid priority parameter''
         else if GetIntParameter cmd ''minutes'' = None
           then Some ''missing minutes parameter''
         else None)
      else if intent cmd = ''show_next_ads'' then
        (case GetIntParameter cmd ''count'' of
           None \<Rightarrow> Some ''missing or invalid count parameter''
         | Some count \<Rightarrow>
             if count \<le> 0 then Some ''missing or invalid count parameter'' else None)
      else if intent cmd = ''waiting_ads'' then
        (if GetIntParameter cmd ''minutes'' = None then Some ''missing minutes parameter''
         else None)
      else if intent cmd = ''set_max_wait_time'' then
        (if GetIntParameter cmd ''seconds'' = None then Some ''missing seconds parameter''
         else None)
      else None)"

text \<open>
  \<^verbatim>\<open>parseSetMaxWaitTime\<close>: \<open>matches\<close> is what \<^verbatim>\<open>FindStringSubmatch\<close> returned for the
  pattern \<^verbatim>\<open>set maximum wait time to (\d+) seconds?\<close>. \<^verbatim>\<open>strconv.Atoi\<close> reads an optional
  sign and decimal digits and fails outside the 64-bit range.
\<close>

fun digitsValue :: "nat \<Rightarrow> string \<Rightarrow> nat option" where
  "digitsValue acc [] = Some acc"
| "digitsValue acc (c # cs) =
     (if CHR ''0'' \<le> c \<and> c \<le> CHR ''9''
      then digitsValue (acc * 10 + (of_char c - 48)) cs
      else None)"

definition Atoi :: "string \<Rightarrow> int option" where
  "Atoi s =
     (let neg = (s \<noteq> [] \<and> hd s = CHR ''-'');
          ds = (if s \<noteq> [] \<and> (hd s = CHR ''-'' \<or> hd s = CHR ''+'') then tl s else s)
      in if ds = [] then None
         else (case digitsValue 0 ds of
                 None \<Rightarrow> None
               | Some n \<Rightarrow>
                   let v = (if neg then - int n else int n)
                   in if - (2 ^ 63) \<le> v \<and> v < 2 ^ 63 then Some v else None))"

datatype parse_error = InvalidMaxWaitTimeCommand | InvalidSecondsValue

definition parseSetMaxWaitTime ::
  "string \<Rightarrow> time \<Rightarrow> string \<Rightarrow> string list \<Rightarrow> parse_error + Command" where
  "parseSetMaxWaitTime newId now text matches =
     (if length matches \<noteq> 2 then Inl InvalidMaxWaitTimeCommand
      else (case Atoi (matches ! 1) of
              None \<Rightarrow> Inl InvalidSecondsValue
            | Some seconds \<Rightarrow>
                Inr (NewCommand newId now text CommandTypeSystemConfiguration ''set_max_wait_time''
                       [''seconds'' \<mapsto> IntValue seconds])))"

text \<open>
  \<^verbatim>\<open>CommandService.ExecuteCommand\<close> from the parsed command on: validation, the executor's
  \<^verbatim>\<open>CanExecute\<close> and \<^verbatim>\<open>Execute\<close> (parameters: the executor is an interface), and the
  command as the service leaves it. Saving to the audit repository does not change the
  command and is left out.
\<close>

definition ExecuteCommand ::
  "(Command \<Rightarrow> bool) \<Rightarrow> (Command \<Rightarrow> Command \<times> string option) \<Rightarrow> time \<Rightarrow> Command \<Rightarrow> Command" where
  "ExecuteCommand canExecute execute now cmd =
     (case ValidateCommand cmd of
        Some err \<Rightarrow> MarkInvalid err cmd
      | None \<Rightarrow>
          if \<not> canExecute cmd then MarkInvalid ''Command cannot be executed'' cmd
          else (case execute (StartExecution cmd) of
                  (cmd', Some err) \<Rightarrow> FailExecution now err cmd'
                | (cmd', None) \<Rightarrow> cmd'))"

section \<open>Concrete states used for evaluation\<close>

text \<open>The sample ad after \<^verbatim>\<open>StartProcessing\<close> and \<^verbatim>\<open>FailProcessing\<close>.\<close>

definition failed_ad :: Ad where
  "failed_ad = fst (FailProcessing (fst (StartProcessing 1700000001000000000 sample_ad)))"

definition sample_config :: QueueConfig where
  "sample_config =
     \<lparr> AntiStarvationEnabled = True, MaxWaitTime = 600000000000, WorkerCount = 4,
       BatchSize = 10, ProcessingTimeout = 30000000000 \<rparr>"

definition empty_queue :: RedisQueueManager where
  "empty_queue = \<lparr> client = (\<lambda>i. []), config = sample_config, shardCount = 4 \<rparr>"

text \<open>Four ads enqueued one second apart into a queue of four shards.\<close>

definition sample_queue :: RedisQueueManager where
  "sample_queue =
     fst (Enqueue 1700000003000000000
       (fst (Enqueue 1700000002000000000
         (fst (Enqueue 1700000001000000000
           (fst (Enqueue 1700000000000000000 empty_queue
              ''3f2b8c1e-0000-4000-8000-000000000001'' 3))
           ''3f2b8c1e-0000-4000-8000-000000000002'' 3))
         ''3f2b8c1e-0000-4000-8000-000000000003'' 1))
       ''3f2b8c1e-0000-4000-8000-000000000004'' 5)"

text \<open>
  One ad enqueued with priority 1 into the empty queue, whose configured maximum wait is ten
  minutes; the same ad in the store.
\<close>

definition starving_queue :: RedisQueueManager where
  "starving_queue =
     fst (Enqueue 1700000000000000000 empty_queue ''3f2b8c1e-0000-4000-8000-000000000001'' 1)"

definition starving_ad :: Ad where
  "starving_ad = sample_ad\<lparr> priority := 1, maxWaitTime := 600000000000 \<rparr>"

text \<open>A store of two ads: the queued sample ad and a second ad that is being processed.\<close>

definition processing_ad :: Ad where
  "processing_ad =
     fst (StartProcessing 1700000001000000000
            (sample_ad\<lparr> ad_id := ''3f2b8c1e-0000-4000-8000-000000000002'' \<rparr>))"

definition sample_store :: "string \<rightharpoonup> Ad" where
  "sample_store =
     [''3f2b8c1e-0000-4000-8000-000000000001'' \<mapsto> sample_ad,
      ''3f2b8c1e-0000-4000-8000-000000000002'' \<mapsto> processing_ad]"

text \<open>The command the mock parser builds for a maximum wait of zero seconds.\<close>

definition zero_wait_command :: Command where
  "zero_wait_command =
     NewCommand ''7a1d0c52-0000-4000-8000-00000000000a'' 1700000000000000000
       ''set maximum wait time to 0 seconds'' CommandTypeSystemConfiguration
       ''set_max_wait_time'' [''seconds'' \<mapsto> IntValue 0]"

text \<open>A maximum-wait command without its parameter, and a show-next command for zero ads.\<close>

definition no_seconds_command :: Command where
  "no_seconds_command =
     NewCommand ''7a1d0c52-0000-4000-8000-00000000000b'' 1700000000000000000
       ''set maximum wait time'' CommandTypeSystemConfiguration ''set_max_wait_time'' Map.empty"

definition zero_count_command :: Command where
  "zero_count_command =
     NewCommand ''7a1d0c52-0000-4000-8000-00000000000c'' 1700000000000000000
       ''show the next 0 ads to be processed'' CommandTypeStatusQuery ''show_next_ads''
       [''count'' \<mapsto> IntValue 0]"

text \<open>Well-formed commands of the other three intents with parameters.\<close>

definition waiting_command :: Command where
  "waiting_command =
     NewCommand ''7a1d0c52-0000-4000-8000-00000000000d'' 1700000000000000000
       ''list all ads waiting longer than 5 minutes'' CommandTypeStatusQuery ''waiting_ads''
       [''minutes'' \<mapsto> IntValue 5]"

definition by_age_command :: Command where
  "by_age_command =
     NewCommand ''7a1d0c52-0000-4000-8000-00000000000e'' 1700000000000000000
       ''set priority to 2 for ads older than 15 minutes'' CommandTypeQueueModification
       ''change_priority_by_age'' [''priority'' \<mapsto> IntValue 2, ''minutes'' \<mapsto> IntValue 15]"

definition by_family_command :: Command where
  "by_family_command =
     NewCommand ''7a1d0c52-0000-4000-8000-00000000000f'' 1700000000000000000
       ''change priority to 5 for all ads in the rpg-fantasy family'' CommandTypeQueueModification
       ''change_priority_by_game_family''
       [''priority'' \<mapsto> Float64Value 5, ''gameFamily'' \<mapsto> StringValue ''rpg-fantasy'']"

section \<open>Properties\<close>

lemma CreateAd_sample:
  "CreateAd ''3f2b8c1e-0000-4000-8000-000000000001'' 1700000000000000000 ''Banner'' ''RPG''
     [''teens''] 2 300000000000 = Inr sample_ad"
  by (simp add: CreateAd_def sample_ad_def IsValid_def)

section \<open>Status transitions\<close>

text \<open>
  Claim C5. The status machine has exactly the edges QUEUED \<rightarrow> PROCESSING \<rightarrow> {COMPLETED, FAILED}:
  \<^verbatim>\<open>StartProcessing\<close> succeeds iff the status is QUEUED, \<^verbatim>\<open>CompleteProcessing\<close> and
  \<^verbatim>\<open>FailProcessing\<close> succeed iff it is PROCESSING, a successful call moves the status along
  its edge, and every other call returns \<^verbatim>\<open>ErrInvalidStatusTransition\<close> with the ad unchanged.
  A second \<^verbatim>\<open>StartProcessing\<close> always fails, and \<^verbatim>\<open>CompleteProcessing\<close> on a QUEUED ad fails.
\<close>

theorem status_transition_edges:
  "(snd (StartProcessing now a) = None \<longleftrightarrow> status a = AdStatusQueued) \<and>
   (snd (CompleteProcessing now a) = None \<longleftrightarrow> status a = AdStatusProcessing) \<and>
   (snd (FailProcessing a) = None \<longleftrightarrow> status a = AdStatusProcessing) \<and>
   (status a = AdStatusQueued \<longrightarrow> status (fst (StartProcessing now a)) = AdStatusProcessing) \<and>
   (status a = AdStatusProcessing \<longrightarrow> status (fst (CompleteProcessing now a)) = AdStatusCompleted) \<and>
   (status a = AdStatusProcessing \<longrightarrow> status (fst (FailProcessing a)) = AdStatusFailed) \<and>
   (status a \<noteq> AdStatusQueued \<longrightarrow> StartProcessing now a = (a, Some ErrInvalidStatusTransition)) \<and>
   (status a \<noteq> AdStatusProcessing \<longrightarrow>
      CompleteProcessing now a = (a, Some ErrInvalidStatusTransition)) \<and>
   (status a \<noteq> AdStatusProcessing \<longrightarrow> FailProcessing a = (a, Some ErrInvalidStatusTransition)) \<and>
   snd (StartProcessing now' (fst (StartProcessing now a))) = Some ErrInvalidStatusTransition \<and>
   (status a = AdStatusQueued \<longrightarrow>
      CompleteProcessing now a = (a, Some ErrInvalidStatusTransition))"
  by (simp add: StartProcessing_def CompleteProcessing_def FailProcessing_def)

theorem status_transition_edges_witness:
  "status sample_ad = AdStatusQueued \<and>
   snd (StartProcessing 7 sample_ad) = None \<and>
   status (fst (StartProcessing 7 sample_ad)) = AdStatusProcessing \<and>
   snd (StartProcessing 8 (fst (StartProcessing 7 sample_ad))) = Some ErrInvalidStatusTransition \<and>
   CompleteProcessing 7 sample_ad = (sample_ad, Some ErrInvalidStatusTransition) \<and>
   FailProcessing sample_ad = (sample_ad, Some ErrInvalidStatusTransition) \<and>
   status (fst (StartProcessing 7 sample_ad)) \<noteq> AdStatusQueued \<and>
   snd (CompleteProcessing 9 (fst (StartProcessing 7 sample_ad))) = None \<and>
   status (fst (CompleteProcessing 9 (fst (StartProcessing 7 sample_ad)))) = AdStatusCompleted \<and>
   snd (FailProcessing (fst (StartProcessing 7 sample_ad))) = None \<and>
   status (fst (FailProcessing (fst (StartProcessing 7 sample_ad)))) = AdStatusFailed"
proof -
  have q: "status sample_ad = AdStatusQueued"
    by (simp add: sample_ad_def)
  have p: "status (fst (StartProcessing 7 sample_ad)) = AdStatusProcessing"
    using status_transition_edges [of 7 sample_ad 8] q by simp
  show ?thesis
    using status_transition_edges [of 7 sample_ad 8]
      status_transition_edges [of 9 "fst (StartProcessing 7 sample_ad)" 9] q p
    by simp
qed

text \<open>
  Claim C7 (evaluation). After a successful \<^verbatim>\<open>StartProcessing\<close> and a successful
  \<^verbatim>\<open>FailProcessing\<close> the sample ad is FAILED and its \<^verbatim>\<open>processedAt\<close> is still unset:
  \<^verbatim>\<open>FailProcessing\<close> does not stamp the time that \<^verbatim>\<open>CompleteProcessing\<close> stamps.
\<close>

theorem FailProcessing_leaves_processedAt_unset:
  "snd (StartProcessing 1700000001000000000 sample_ad) = None \<and>
   snd (FailProcessing (fst (StartProcessing 1700000001000000000 sample_ad))) = None \<and>
   status failed_ad = AdStatusFailed \<and> processedAt failed_ad = None"
  by (simp add: failed_ad_def sample_ad_def StartProcessing_def FailProcessing_def)

section \<open>Priority change on the ad\<close>

text \<open>
  Claim C6 (evaluation). \<^verbatim>\<open>ChangePriority\<close> with a valid priority succeeds on the FAILED sample
  ad, rewriting its priority and incrementing its version: the guard rejects PROCESSING and
  COMPLETED only.
\<close>

theorem ChangePriority_accepts_failed_ad:
  "status failed_ad = AdStatusFailed \<and> priority failed_ad = 2 \<and> version failed_ad = 3 \<and>
   ChangePriority 5 failed_ad = (failed_ad\<lparr> priority := 5, version := 4 \<rparr>, None)"
  by (simp add: failed_ad_def sample_ad_def StartProcessing_def FailProcessing_def
      ChangePriority_def IsValid_def)

section \<open>The score encoding\<close>

text \<open>
  Claim C1 as stated fails for a timestamp outside the window of the encoding: an entry of
  priority 2 stamped with the Unix time 20000000000 (year 2603) scores below an entry of
  priority 1 stamped with the Unix time 0.
\<close>

theorem score_order_counterexample:
  "IsValid 2 \<and> IsValid 1 \<and> (1::int) < 2 \<and>
   calculateScore 2 20000000000000000000 < calculateScore 1 0"
  by (simp add: calculateScore_def Unix_def IsValid_def)

text \<open>
  Claim C1, amended. For two entries whose Unix timestamps lie in the window
  \<open>0 .. 9999999999\<close> of the encoding, the entry of strictly higher priority has the strictly
  greater score whatever the two timestamps are, and of two entries of equal priority the one
  with the smaller Unix timestamp has the strictly greater score.
\<close>

theorem score_order_in_window:
  assumes "0 \<le> Unix t1" "Unix t1 \<le> 9999999999" "0 \<le> Unix t2" "Unix t2 \<le> 9999999999"
  shows "(p2 < p1 \<longrightarrow> calculateScore p2 t2 < calculateScore p1 t1) \<and>
         (p1 = p2 \<and> Unix t1 < Unix t2 \<longrightarrow> calculateScore p2 t2 < calculateScore p1 t1)"
proof -
  have "calculateScore p2 t2 < calculateScore p1 t1" if "p2 < p1"
  proof -
    from that have "p2 + 1 \<le> p1" by simp
    then have "(p2 + 1) * 10000000000 \<le> p1 * 10000000000" by simp
    with assms show ?thesis
      by (simp add: calculateScore_def algebra_simps)
  qed
  moreover have "calculateScore p2 t2 < calculateScore p1 t1" if "p1 = p2" "Unix t1 < Unix t2"
    using that by (simp add: calculateScore_def)
  ultimately show ?thesis by blast
qed

theorem score_order_in_window_witness:
  "(0::int) \<le> Unix 1700000000000000000 \<and> Unix 1700000000000000000 \<le> 9999999999 \<and>
   (1::int) < 5 \<and> Unix 1700000000000000000 < Unix 1700000001000000000 \<and>
   calculateScore 1 1700000000000000000 < calculateScore 5 1700000001000000000 \<and>
   calculateScore 3 1700000001000000000 < calculateScore 3 1700000000000000000"
  using score_order_in_window [where ?t1.0 = 1700000001000000000 and ?t2.0 = 1700000000000000000
      and ?p1.0 = 5 and ?p2.0 = 1]
    score_order_in_window [where ?t1.0 = 1700000000000000000 and ?t2.0 = 1700000001000000000
      and ?p1.0 = 3 and ?p2.0 = 3]
  by (simp add: Unix_def)

text \<open>
  The package-level \<^verbatim>\<open>calculateScore\<close> of the queue package, which scores the
  \<^verbatim>\<open>QueueItem\<close> values handed to callers and does not order the Redis sets, adds the Unix
  time instead of subtracting it: the older of two items of equal priority scores lower.
\<close>

lemma queue_calculateScore_older_scores_lower:
  "Unix t1 < Unix t2 \<Longrightarrow> queue_calculateScore p t1 < queue_calculateScore p t2"
  by (simp add: queue_calculateScore_def divide_strict_right_mono)

section \<open>Dequeue\<close>

lemma peekShards_all_empty:
  "\<forall>i \<in> set shards. cl i = [] \<Longrightarrow> peekShards cl shards best = best"
  by (induction shards arbitrary: best) (simp_all add: ZRevRangeWithScores_def ZRangeAll_def)

text \<open>
  Claim C10. When every shard \<open>0 .. shardCount - 1\<close> is empty, \<^verbatim>\<open>Dequeue\<close> returns no item and
  no error, and the queue is unchanged.
\<close>

theorem Dequeue_on_empty_queue:
  assumes "\<forall>i. 0 \<le> i \<and> i < shardCount r \<longrightarrow> client r i = []"
  shows "Dequeue uuidParses now r = (r, None, None)"
proof -
  have "\<forall>i \<in> set [0 .. shardCount r - 1]. client r i = []"
    using assms by simp
  then have "peekShards (client r) [0 .. shardCount r - 1] None = None"
    by (rule peekShards_all_empty)
  then show ?thesis
    by (simp add: Dequeue_def)
qed

theorem Dequeue_on_empty_queue_witness:
  "shardCount empty_queue = 4 \<and> client empty_queue 0 = [] \<and> client empty_queue 3 = [] \<and>
   Dequeue (\<lambda>s. True) 1700000000000000000 empty_queue = (empty_queue, None, None)"
proof -
  have "\<forall>i. 0 \<le> i \<and> i < shardCount empty_queue \<longrightarrow> client empty_queue i = []"
    by (simp add: empty_queue_def)
  from Dequeue_on_empty_queue [OF this] show ?thesis
    by (simp add: empty_queue_def)
qed

section \<open>Priority update in the queue\<close>


lemma sdiv_nonneg_eq_div: "0 \<le> s \<Longrightarrow> s sdiv (10000000000::int) = s div 10000000000"
  by (cases "s = 0") (simp_all add: signed_divide_int_def)

lemma timestampPart_eq_smod:
  "s - (s sdiv 10000000000) * 10000000000 = s smod (10000000000::int)"
  by (rule minus_sdiv_mult_eq_smod)

lemma smod_mod_same: "(s smod 10000000000) mod 10000000000 = s mod (10000000000::int)"
proof -
  have "s smod 10000000000 = s - (s sdiv 10000000000) * 10000000000"
    by (simp add: timestampPart_eq_smod)
  also have "\<dots> = s + (- (s sdiv 10000000000)) * 10000000000"
    by simp
  finally have "(s smod 10000000000) mod 10000000000 =
      (s + (- (s sdiv 10000000000)) * 10000000000) mod 10000000000"
    by simp
  also have "\<dots> = s mod 10000000000"
    by (rule mod_mult_self1)
  finally show ?thesis .
qed

lemma smod_nonneg_eq_mod: "0 \<le> s \<Longrightarrow> s smod (10000000000::int) = s mod 10000000000"
  using timestampPart_eq_smod [of s] sdiv_nonneg_eq_div [of s]
  by (simp add: minus_div_mult_eq_mod)

lemma calculateScore_decode:
  assumes "0 \<le> p" "0 \<le> Unix t" "Unix t \<le> 9999999999"
  shows "0 \<le> calculateScore p t"
    and "calculateScore p t mod 10000000000 = 9999999999 - Unix t"
    and "calculateScore p t div 10000000000 = p"
proof -
  have c: "calculateScore p t = (9999999999 - Unix t) + p * 10000000000"
    by (simp add: calculateScore_def)
  have "0 \<le> p * 10000000000" using assms by simp
  with assms show "0 \<le> calculateScore p t" unfolding c by linarith
  show "calculateScore p t mod 10000000000 = 9999999999 - Unix t"
    unfolding c using assms by simp
  show "calculateScore p t div 10000000000 = p"
    unfolding c using assms by simp
qed

text \<open>
  Claim C2. For an id whose shard is \<open>k\<close>: when the id is absent from that shard,
  \<^verbatim>\<open>UpdatePriority\<close> fails with the not-in-queue error and changes nothing. When the id is
  present with score \<open>s\<close>, the call succeeds and rewrites the score to
  \<open>newPriority * P\<close> plus the time component taken from \<open>s\<close>; the time component
  (\<open>score mod P\<close>) of the new score is that of the old one; for an entry that \<^verbatim>\<open>Enqueue\<close>
  scored at time \<open>t\<close> the new score is the one \<^verbatim>\<open>Enqueue\<close> gives the new priority at the
  same \<open>t\<close>, so the FIFO age is not reset; no other member and no other shard changes.
\<close>

theorem UpdatePriority_keeps_time_component:
  assumes k: "getShardKey r adID = Some k"
  shows
    "(ZScore (client r k) adID = None \<longrightarrow>
        UpdatePriority r adID newPriority = (r, Some (AdNotFoundInQueue adID))) \<and>
     (ZScore (client r k) adID = Some s \<longrightarrow>
        snd (UpdatePriority r adID newPriority) = None \<and>
        ZScore (client (fst (UpdatePriority r adID newPriority)) k) adID =
          Some (newPriority * 10000000000 + s smod 10000000000) \<and>
        (newPriority * 10000000000 + s smod 10000000000) mod 10000000000 = s mod 10000000000 \<and>
        (0 \<le> s \<longrightarrow>
           ZScore (client (fst (UpdatePriority r adID newPriority)) k) adID =
             Some (newPriority * 10000000000 + s mod 10000000000)) \<and>
        (\<forall>p t. 0 \<le> p \<and> 0 \<le> Unix t \<and> Unix t \<le> 9999999999 \<and> s = calculateScore p t \<longrightarrow>
           ZScore (client (fst (UpdatePriority r adID newPriority)) k) adID =
             Some (calculateScore newPriority t)) \<and>
        (\<forall>m. m \<noteq> adID \<longrightarrow>
           ZScore (client (fst (UpdatePriority r adID newPriority)) k) m = ZScore (client r k) m) \<and>
        (\<forall>j. j \<noteq> k \<longrightarrow> client (fst (UpdatePriority r adID newPriority)) j = client r j))"
proof -
  have absent: "UpdatePriority r adID newPriority = (r, Some (AdNotFoundInQueue adID))"
    if "ZScore (client r k) adID = None"
    using that k by (simp add: UpdatePriority_def)
  have present:
    "UpdatePriority r adID newPriority =
       (r\<lparr> client := (client r)(k := ZAdd adID (newPriority * 10000000000 + s smod 10000000000)
                                      (client r k)) \<rparr>, None)"
    if "ZScore (client r k) adID = Some s"
    using that k by (simp add: UpdatePriority_def Let_def timestampPart_eq_smod)
  have m1: "(newPriority * 10000000000 + s smod 10000000000) mod 10000000000 = s mod 10000000000"
  proof -
    have "(s smod 10000000000 + newPriority * 10000000000) mod 10000000000 =
        (s smod 10000000000) mod 10000000000"
      by (rule mod_mult_self1)
    then show ?thesis
      by (simp add: smod_mod_same add.commute)
  qed
  have enq: "newPriority * 10000000000 + s smod 10000000000 = calculateScore newPriority t"
    if "0 \<le> p" "0 \<le> Unix t" "Unix t \<le> 9999999999" "s = calculateScore p t" for p t
  proof -
    have "s smod 10000000000 = 9999999999 - Unix t"
      using calculateScore_decode [OF that(1-3)] that(4) by (simp add: smod_nonneg_eq_mod)
    then show ?thesis by (simp add: calculateScore_def)
  qed
  show ?thesis
    using absent present m1 enq
    by (auto simp: ZScore_def ZAdd_def update_conv' smod_nonneg_eq_mod)
qed


lemma sample_queue_eq:
  "sample_queue =
     \<lparr> client = (\<lambda>i. [])
         (3 := [(''3f2b8c1e-0000-4000-8000-000000000001'', 39999999999 - 1700000000)],
          0 := [(''3f2b8c1e-0000-4000-8000-000000000002'', 39999999999 - 1700000001)],
          1 := [(''3f2b8c1e-0000-4000-8000-000000000003'', 19999999999 - 1700000002)],
          2 := [(''3f2b8c1e-0000-4000-8000-000000000004'', 59999999999 - 1700000003)]),
       config = sample_config, shardCount = 4 \<rparr>"
  by (simp add: sample_queue_def empty_queue_def Enqueue_def getShardKey_def
      signed_modulo_int_def calculateScore_def Unix_def ZAdd_def)

lemma sample_shards:
  "getShardKey sample_queue ''3f2b8c1e-0000-4000-8000-000000000001'' = Some 3"
  "getShardKey sample_queue ''3f2b8c1e-0000-4000-8000-000000000005'' = Some 3"
  by (simp_all add: sample_queue_eq getShardKey_def signed_modulo_int_def)

theorem UpdatePriority_keeps_time_component_witness:
  "getShardKey sample_queue ''3f2b8c1e-0000-4000-8000-000000000001'' = Some 3 \<and>
   ZScore (client sample_queue 3) ''3f2b8c1e-0000-4000-8000-000000000001'' =
     Some (calculateScore 3 1700000000000000000) \<and>
   snd (UpdatePriority sample_queue ''3f2b8c1e-0000-4000-8000-000000000001'' 5) = None \<and>
   ZScore (client (fst (UpdatePriority sample_queue ''3f2b8c1e-0000-4000-8000-000000000001'' 5)) 3)
     ''3f2b8c1e-0000-4000-8000-000000000001'' = Some (calculateScore 5 1700000000000000000) \<and>
   (0::int) \<le> calculateScore 3 1700000000000000000 \<and>
   (0::int) \<le> Unix 1700000000000000000 \<and> Unix 1700000000000000000 \<le> 9999999999 \<and>
   ''3f2b8c1e-0000-4000-8000-000000000005'' \<noteq> ''3f2b8c1e-0000-4000-8000-000000000001'' \<and>
   ZScore (client (fst (UpdatePriority sample_queue ''3f2b8c1e-0000-4000-8000-000000000001'' 5)) 3)
     ''3f2b8c1e-0000-4000-8000-000000000005'' = None \<and>
   client (fst (UpdatePriority sample_queue ''3f2b8c1e-0000-4000-8000-000000000001'' 5)) 2 =
     client sample_queue 2 \<and>
   getShardKey sample_queue ''3f2b8c1e-0000-4000-8000-000000000005'' = Some 3 \<and>
   ZScore (client sample_queue 3) ''3f2b8c1e-0000-4000-8000-000000000005'' = None \<and>
   UpdatePriority sample_queue ''3f2b8c1e-0000-4000-8000-000000000005'' 5 =
     (sample_queue, Some (AdNotFoundInQueue ''3f2b8c1e-0000-4000-8000-000000000005''))"
proof -
  have present: "ZScore (client sample_queue 3) ''3f2b8c1e-0000-4000-8000-000000000001'' =
      Some (calculateScore 3 1700000000000000000)"
    by (simp add: sample_queue_eq ZScore_def calculateScore_def Unix_def)
  have absent: "ZScore (client sample_queue 3) ''3f2b8c1e-0000-4000-8000-000000000005'' = None"
    by (simp add: sample_queue_eq ZScore_def)
  have window: "(0::int) \<le> 3 \<and> 0 \<le> Unix 1700000000000000000 \<and>
      Unix 1700000000000000000 \<le> 9999999999"
    by (simp add: Unix_def)
  show ?thesis
    using UpdatePriority_keeps_time_component [OF sample_shards(1),
        where s = "calculateScore 3 1700000000000000000" and newPriority = 5]
      UpdatePriority_keeps_time_component [OF sample_shards(2), where s = 0 and newPriority = 5]
      present absent window sample_shards
    by (simp add: calculateScore_def Unix_def signed_modulo_int_def)
qed

section \<open>Queue position\<close>


lemma fold_position:
  "fold (\<lambda>i position. position + int (f i)) shards acc = acc + (\<Sum>i\<leftarrow>shards. int (f i))"
  by (induction shards arbitrary: acc) simp_all

lemma ZCountAbove_card:
  assumes "distinct (map fst zs)"
  shows "ZCountAbove zs lo = card {m. \<exists>s'. ZScore zs m = Some s' \<and> lo < s'}"
proof -
  let ?above = "filter (\<lambda>e. lo < snd e) zs"
  have d: "distinct (map fst ?above)"
    using assms by (rule distinct_map_filter)
  have "{m. \<exists>s'. ZScore zs m = Some s' \<and> lo < s'} = set (map fst ?above)"
    using assms by (auto simp: ZScore_def image_iff)
  then have "card {m. \<exists>s'. ZScore zs m = Some s' \<and> lo < s'} = length (map fst ?above)"
    using d by (simp only: distinct_card)
  then show ?thesis
    by (simp add: ZCountAbove_def)
qed

lemma finite_above: "finite {m. \<exists>s'. ZScore zs m = Some s' \<and> lo < s'}"
proof -
  have "{m. \<exists>s'. ZScore zs m = Some s' \<and> lo < s'} \<subseteq> dom (map_of zs)"
    by (auto simp: ZScore_def)
  then show ?thesis
    by (rule finite_subset) (rule finite_dom_map_of)
qed

lemma Enqueue_keeps_distinct:
  "\<forall>i. distinct (map fst (client r i)) \<Longrightarrow>
   \<forall>i. distinct (map fst (client (fst (Enqueue now r adID p)) i))"
  by (simp add: Enqueue_def ZAdd_def distinct_update split: option.split)

lemma UpdatePriority_keeps_distinct:
  "\<forall>i. distinct (map fst (client r i)) \<Longrightarrow>
   \<forall>i. distinct (map fst (client (fst (UpdatePriority r adID p)) i))"
  by (simp add: UpdatePriority_def ZAdd_def distinct_update Let_def split: option.split)

lemma Dequeue_keeps_distinct:
  "\<forall>i. distinct (map fst (client r i)) \<Longrightarrow>
   \<forall>i. distinct (map fst (client (fst (Dequeue uuidParses now r)) i))"
  by (simp add: Dequeue_def ZRem_def distinct_delete Let_def split: option.split prod.split)

text \<open>
  Claim C8. For an id present in its shard with score \<open>s\<close>, \<^verbatim>\<open>GetPosition\<close> returns 1 plus the
  number of entries \<open>(shard, member)\<close>, over all shards \<open>0 .. shardCount - 1\<close>, whose score
  is strictly greater than \<open>s\<close>. Each sorted set holds one entry per member.
\<close>

theorem GetPosition_counts_all_shards:
  assumes k: "getShardKey r adID = Some k"
    and s: "ZScore (client r k) adID = Some s"
    and d: "\<forall>i. distinct (map fst (client r i))"
  shows "GetPosition r adID =
     (1 + int (card {(i, m). 0 \<le> i \<and> i < shardCount r \<and>
                        (\<exists>s'. ZScore (client r i) m = Some s' \<and> s < s')}), None)"
proof -
  let ?A = "\<lambda>i. {m. \<exists>s'. ZScore (client r i) m = Some s' \<and> s < s'}"
  have set_eq: "{(i, m). 0 \<le> i \<and> i < shardCount r \<and>
      (\<exists>s'. ZScore (client r i) m = Some s' \<and> s < s')} = (SIGMA i:{0 .. shardCount r - 1}. ?A i)"
    by auto
  have "card (SIGMA i:{0 .. shardCount r - 1}. ?A i) = (\<Sum>i\<in>{0 .. shardCount r - 1}. card (?A i))"
    by (rule card_SigmaI) (simp_all add: finite_above)
  also have "\<dots> = (\<Sum>i\<in>{0 .. shardCount r - 1}. ZCountAbove (client r i) s)"
    using d by (simp add: ZCountAbove_card)
  finally have c: "int (card (SIGMA i:{0 .. shardCount r - 1}. ?A i)) =
      (\<Sum>i\<in>{0 .. shardCount r - 1}. int (ZCountAbove (client r i) s))"
    by simp
  have "(\<Sum>i\<leftarrow>[0 .. shardCount r - 1]. int (ZCountAbove (client r i) s)) =
      (\<Sum>i\<in>{0 .. shardCount r - 1}. int (ZCountAbove (client r i) s))"
    by (simp add: sum_list_distinct_conv_sum_set)
  with c show ?thesis
    using k s by (simp add: GetPosition_def fold_position set_eq)
qed


lemma sample_queue_distinct: "\<forall>i. distinct (map fst (client sample_queue i))"
  by (simp add: sample_queue_eq)

theorem GetPosition_counts_all_shards_witness:
  "getShardKey sample_queue ''3f2b8c1e-0000-4000-8000-000000000001'' = Some 3 \<and>
   ZScore (client sample_queue 3) ''3f2b8c1e-0000-4000-8000-000000000001'' = Some 38299999999 \<and>
   ZCountAbove (client sample_queue 3) 38299999999 = 0 \<and>
   GetPosition sample_queue ''3f2b8c1e-0000-4000-8000-000000000001'' = (2, None) \<and>
   card {(i, m). 0 \<le> i \<and> i < shardCount sample_queue \<and>
           (\<exists>s'. ZScore (client sample_queue i) m = Some s' \<and> 38299999999 < s')} = 1"
proof -
  have present:
    "ZScore (client sample_queue 3) ''3f2b8c1e-0000-4000-8000-000000000001'' = Some 38299999999"
    by (simp add: sample_queue_eq ZScore_def)
  have own: "ZCountAbove (client sample_queue 3) 38299999999 = 0"
    by (simp add: sample_queue_eq ZCountAbove_def)
  have pos: "GetPosition sample_queue ''3f2b8c1e-0000-4000-8000-000000000001'' = (2, None)"
    using sample_shards(1) present
    by (simp add: GetPosition_def) (simp add: sample_queue_eq ZCountAbove_def upto.simps)
  show ?thesis
    using GetPosition_counts_all_shards [OF sample_shards(1) present sample_queue_distinct]
      sample_shards(1) present own pos
    by simp
qed



section \<open>Anti-starvation pass\<close>

lemma starving_queue_eq:
  "starving_queue =
     \<lparr> client = (\<lambda>i. [])(3 := [(''3f2b8c1e-0000-4000-8000-000000000001'', 18299999999)]),
       config = sample_config, shardCount = 4 \<rparr>"
  by (simp add: starving_queue_def empty_queue_def Enqueue_def getShardKey_def
      signed_modulo_int_def calculateScore_def Unix_def ZAdd_def)

lemma boostItem_skips:
  assumes "now - (9999999999 - (s - (s sdiv 10000000000) * 10000000000)) * 1000000000
             \<le> MaxWaitTime cfg \<or> 5 \<le> s sdiv 10000000000"
  shows "boostItem cfg now (m, s) zs = zs"
  using assms by (auto simp: boostItem_def Let_def PriorityHigh_def)

lemma boostItem_boosts:
  assumes "now - (9999999999 - (s - (s sdiv 10000000000) * 10000000000)) * 1000000000
             > MaxWaitTime cfg" "s sdiv 10000000000 < 5"
  shows "boostItem cfg now (m, s) zs =
     ZAdd m (min 5 (s sdiv 10000000000 +
                    (now - (9999999999 - (s - (s sdiv 10000000000) * 10000000000)) * 1000000000)
                      sdiv 300000000000) * 10000000000
             + (s - (s sdiv 10000000000) * 10000000000)) zs"
  using assms by (simp add: boostItem_def Let_def PriorityHigh_def min_def)

text \<open>
  Claim C3 (evaluation). The maximum wait is ten minutes and the entry of priority 1 is twelve
  minutes old. The pass rewrites its score into the band of priority 3 (boost
  \<open>12 min div 5 min = 2\<close>, from the whole age), keeping the time component. The boost of the
  claim, from the overrun of two minutes, is 0 and leaves the priority at 1, which is also what
  \<^verbatim>\<open>Ad.CalculateEffectivePriority\<close> computes for the same ad.
\<close>

theorem ApplyAntiStarvation_boosts_by_whole_age:
  "MaxWaitTime (config starving_queue) = 600000000000 \<and>
   ZScore (client starving_queue 3) ''3f2b8c1e-0000-4000-8000-000000000001'' =
     Some (calculateScore 1 1700000000000000000) \<and>
   snd (ApplyAntiStarvation (\<lambda>i m. 1700000720000000000) starving_queue) = None \<and>
   ZScore (client (fst (ApplyAntiStarvation (\<lambda>i m. 1700000720000000000) starving_queue)) 3)
     ''3f2b8c1e-0000-4000-8000-000000000001'' = Some (calculateScore 3 1700000000000000000) \<and>
   min 5 (1 + (1700000720000000000 - 1700000000000000000 - 600000000000) div 300000000000) = (1::int) \<and>
   CalculateEffectivePriority 1700000720000000000 starving_ad True = 1"
  by (simp add: starving_queue_eq sample_config_def ApplyAntiStarvation_def boostShard_def
      boostItem_def ZRangeAll_def ZScore_def ZAdd_def calculateScore_def Unix_def upto.simps
      PriorityHigh_def signed_divide_int_def Let_def
      CalculateEffectivePriority_def IsStarving_def WaitTime_def starving_ad_def sample_ad_def)

section \<open>Batch priority update in the repositories\<close>

text \<open>
  Claim C4 (evaluation). On the store of a QUEUED ad and a PROCESSING ad, the in-memory
  \<^verbatim>\<open>UpdatePriorityBatch\<close> for both ids returns an error for the second id after it has
  rewritten the priority and the version of the first: the batch is not all-or-nothing.
\<close>

theorem UpdatePriorityBatch_partial_update:
  "status sample_ad = AdStatusQueued \<and> status processing_ad = AdStatusProcessing \<and>
   snd (UpdatePriorityBatch sample_store
          [''3f2b8c1e-0000-4000-8000-000000000001'', ''3f2b8c1e-0000-4000-8000-000000000002''] 5) =
     Some (FailedToUpdatePriority ''3f2b8c1e-0000-4000-8000-000000000002''
             ErrCannotChangePriorityAfterProcessing) \<and>
   fst (UpdatePriorityBatch sample_store
          [''3f2b8c1e-0000-4000-8000-000000000001'', ''3f2b8c1e-0000-4000-8000-000000000002''] 5)
      ''3f2b8c1e-0000-4000-8000-000000000001'' = Some (sample_ad\<lparr> priority := 5, version := 2 \<rparr>) \<and>
   sample_store ''3f2b8c1e-0000-4000-8000-000000000001'' = Some sample_ad \<and>
   priority sample_ad = 2 \<and> version sample_ad = 1"
  by (simp add: sample_store_def processing_ad_def sample_ad_def StartProcessing_def
      ChangePriority_def IsValid_def)


text \<open>
  The PostgreSQL repository runs the same batch in a transaction: an error leaves the table
  as it was, and a commit has rewritten exactly the queued rows of the given ids, each once.
\<close>

lemma Postgres_UpdatePriorityBatch_rollback:
  "snd (Postgres_UpdatePriorityBatch faults tbl ids newPriority) \<noteq> None \<Longrightarrow>
   fst (Postgres_UpdatePriorityBatch faults tbl ids newPriority) = tbl"
  by (simp add: Postgres_UpdatePriorityBatch_def split: if_splits sum.splits)

lemma exec_updates_rows:
  "exec_updates fails k tx ids newPriority = Inr tx' \<Longrightarrow> distinct ids \<Longrightarrow>
   tx' i = (if i \<in> set ids then queued_row_updated newPriority (tx i) else tx i)"
proof (induction ids arbitrary: k tx)
  case Nil
  then show ?case by simp
next
  case (Cons j ids)
  from Cons.prems(1) obtain tx1 where
    step: "update_queued_row tx j newPriority = Inr tx1" and
    rest: "exec_updates fails (Suc k) tx1 ids newPriority = Inr tx'"
    by (auto split: if_splits sum.splits)
  from Cons.prems(2) have dj: "j \<notin> set ids" and d: "distinct ids"
    by simp_all
  have tx1: "tx1 = tx(j := queued_row_updated newPriority (tx j))"
    using step
    by (auto simp: update_queued_row_def queued_row_updated_def split: option.splits if_splits)
  have "tx' i = (if i \<in> set ids then queued_row_updated newPriority (tx1 i) else tx1 i)"
    using Cons.IH [OF rest d] .
  then show ?case
    using dj by (auto simp: tx1)
qed

lemma Postgres_UpdatePriorityBatch_commit:
  assumes "Postgres_UpdatePriorityBatch faults tbl ids newPriority = (tbl', None)" "distinct ids"
  shows "tbl' i = (if i \<in> set ids then queued_row_updated newPriority (tbl i) else tbl i)"
proof (cases "ids = []")
  case True
  with assms show ?thesis
    by (simp add: Postgres_UpdatePriorityBatch_def)
next
  case False
  with assms(1) have "exec_updates (exec_fails faults) 0 tbl ids newPriority = Inr tbl'"
    by (auto simp: Postgres_UpdatePriorityBatch_def split: if_splits sum.splits)
  then show ?thesis
    using assms(2) by (rule exec_updates_rows)
qed




section \<open>Command validation\<close>

text \<open>
  Claim C9 as stated fails: the command that \<^verbatim>\<open>parseSetMaxWaitTime\<close> builds for
  \<^verbatim>\<open>set maximum wait time to 0 seconds\<close> carries \<open>seconds = 0\<close> and passes
  \<^verbatim>\<open>ValidateCommand\<close>.
\<close>

theorem set_max_wait_zero_passes_validation:
  "parseSetMaxWaitTime ''7a1d0c52-0000-4000-8000-00000000000a'' 1700000000000000000
     ''set maximum wait time to 0 seconds'' [''set maximum wait time to 0 seconds'', ''0'']
     = Inr zero_wait_command \<and>
   intent zero_wait_command = ''set_max_wait_time'' \<and>
   GetIntParameter zero_wait_command ''seconds'' = Some 0 \<and>
   ValidateCommand zero_wait_command = None"
  by (simp add: parseSetMaxWaitTime_def Atoi_def zero_wait_command_def NewCommand_def
      GetIntParameter_def ValidateCommand_def)

lemma GetIntParameter_present:
  "GetIntParameter cmd key \<noteq> None \<longleftrightarrow>
     (\<exists>i. parameters cmd key = Some (IntValue i)) \<or>
     (\<exists>f. parameters cmd key = Some (Float64Value f))"
  by (auto simp: GetIntParameter_def split: option.splits param_value.splits)

lemma GetPriorityParameter_present:
  "GetPriorityParameter cmd key \<noteq> None \<longleftrightarrow>
     (\<exists>p. GetIntParameter cmd key = Some p \<and> 1 \<le> p \<and> p \<le> 5)"
  by (auto simp: GetPriorityParameter_def IsValid_def split: option.splits)

lemma ValidateCommand_set_max_wait_time:
  "intent cmd = ''set_max_wait_time'' \<Longrightarrow>
   ValidateCommand cmd = None \<longleftrightarrow> GetIntParameter cmd ''seconds'' \<noteq> None"
  by (simp add: ValidateCommand_def)

lemma ValidateCommand_show_next_ads:
  "intent cmd = ''show_next_ads'' \<Longrightarrow>
   ValidateCommand cmd = None \<longleftrightarrow> (\<exists>n. GetIntParameter cmd ''count'' = Some n \<and> 0 < n)"
  by (simp add: ValidateCommand_def split: option.splits)

lemma ValidateCommand_waiting_ads:
  "intent cmd = ''waiting_ads'' \<Longrightarrow>
   ValidateCommand cmd = None \<longleftrightarrow> GetIntParameter cmd ''minutes'' \<noteq> None"
  by (simp add: ValidateCommand_def)

lemma ValidateCommand_change_priority_by_age:
  "intent cmd = ''change_priority_by_age'' \<Longrightarrow>
   ValidateCommand cmd = None \<longleftrightarrow>
     GetPriorityParameter cmd ''priority'' \<noteq> None \<and> GetIntParameter cmd ''minutes'' \<noteq> None"
  by (simp add: ValidateCommand_def)

lemma ValidateCommand_change_priority_by_game_family:
  "intent cmd = ''change_priority_by_game_family'' \<Longrightarrow>
   ValidateCommand cmd = None \<longleftrightarrow>
     GetPriorityParameter cmd ''priority'' \<noteq> None \<and> GetStringParameter cmd ''gameFamily'' \<noteq> None"
  by (simp add: ValidateCommand_def)

lemma ExecuteCommand_invalid:
  "ValidateCommand cmd = Some err \<Longrightarrow> ExecuteCommand canExecute execute now cmd = MarkInvalid err cmd"
  by (simp add: ExecuteCommand_def)

text \<open>
  Claim C9, amended. \<^verbatim>\<open>ValidateCommand\<close> accepts a command exactly when the parameters its
  intent requires are present: \<^verbatim>\<open>set_max_wait_time\<close> needs \<^verbatim>\<open>seconds\<close> as a number (an
  \<^verbatim>\<open>int\<close> or a \<^verbatim>\<open>float64\<close>) of any value; \<^verbatim>\<open>show_next_ads\<close> needs a \<^verbatim>\<open>count\<close> above
  zero; \<^verbatim>\<open>waiting_ads\<close> needs \<^verbatim>\<open>minutes\<close>; the two priority changes need a \<^verbatim>\<open>priority\<close>
  from 1 to 5 and \<^verbatim>\<open>minutes\<close>, respectively a string \<^verbatim>\<open>gameFamily\<close>. A command that fails
  validation is marked invalid with the reason and the executor is never called.
\<close>

theorem ValidateCommand_required_parameters:
  "(intent cmd = ''set_max_wait_time'' \<longrightarrow>
      (ValidateCommand cmd = None \<longleftrightarrow> GetIntParameter cmd ''seconds'' \<noteq> None)) \<and>
   (intent cmd = ''show_next_ads'' \<longrightarrow>
      (ValidateCommand cmd = None \<longleftrightarrow> (\<exists>n. GetIntParameter cmd ''count'' = Some n \<and> 0 < n))) \<and>
   (intent cmd = ''waiting_ads'' \<longrightarrow>
      (ValidateCommand cmd = None \<longleftrightarrow> GetIntParameter cmd ''minutes'' \<noteq> None)) \<and>
   (intent cmd = ''change_priority_by_age'' \<longrightarrow>
      (ValidateCommand cmd = None \<longleftrightarrow>
         (\<exists>p. GetIntParameter cmd ''priority'' = Some p \<and> 1 \<le> p \<and> p \<le> 5) \<and>
         GetIntParameter cmd ''minutes'' \<noteq> None)) \<and>
   (intent cmd = ''change_priority_by_game_family'' \<longrightarrow>
      (ValidateCommand cmd = None \<longleftrightarrow>
         (\<exists>p. GetIntParameter cmd ''priority'' = Some p \<and> 1 \<le> p \<and> p \<le> 5) \<and>
         GetStringParameter cmd ''gameFamily'' \<noteq> None)) \<and>
   (GetIntParameter cmd key \<noteq> None \<longleftrightarrow>
      (\<exists>i. parameters cmd key = Some (IntValue i)) \<or>
      (\<exists>f. parameters cmd key = Some (Float64Value f))) \<and>
   (ValidateCommand cmd = Some err \<longrightarrow>
      ExecuteCommand canExecute execute now cmd = MarkInvalid err cmd)"
  using ValidateCommand_set_max_wait_time [of cmd] ValidateCommand_show_next_ads [of cmd]
    ValidateCommand_waiting_ads [of cmd] ValidateCommand_change_priority_by_age [of cmd]
    ValidateCommand_change_priority_by_game_family [of cmd]
    GetIntParameter_present [of cmd key] GetPriorityParameter_present [of cmd "''priority''"]
    ExecuteCommand_invalid [of cmd err canExecute execute now]
  by blast

theorem ValidateCommand_required_parameters_witness:
  "intent zero_wait_command = ''set_max_wait_time'' \<and>
   GetIntParameter zero_wait_command ''seconds'' = Some 0 \<and>
   ValidateCommand zero_wait_command = None \<and>
   intent no_seconds_command = ''set_max_wait_time'' \<and>
   GetIntParameter no_seconds_command ''seconds'' = None \<and>
   ValidateCommand no_seconds_command = Some ''missing seconds parameter'' \<and>
   ExecuteCommand (\<lambda>c. True) (\<lambda>c. (c, None)) 1700000001000000000 no_seconds_command =
     MarkInvalid ''missing seconds parameter'' no_seconds_command \<and>
   intent zero_count_command = ''show_next_ads'' \<and>
   GetIntParameter zero_count_command ''count'' = Some 0 \<and>
   ValidateCommand zero_count_command \<noteq> None \<and>
   intent waiting_command = ''waiting_ads'' \<and>
   GetIntParameter waiting_command ''minutes'' = Some 5 \<and>
   ValidateCommand waiting_command = None \<and>
   intent by_age_command = ''change_priority_by_age'' \<and>
   GetIntParameter by_age_command ''priority'' = Some 2 \<and>
   GetIntParameter by_age_command ''minutes'' = Some 15 \<and>
   ValidateCommand by_age_command = None \<and>
   intent by_family_command = ''change_priority_by_game_family'' \<and>
   GetIntParameter by_family_command ''priority'' = Some 5 \<and>
   GetStringParameter by_family_command ''gameFamily'' = Some ''rpg-fantasy'' \<and>
   ValidateCommand by_family_command = None"
proof -
  have z: "intent zero_wait_command = ''set_max_wait_time''"
    "GetIntParameter zero_wait_command ''seconds'' = Some 0"
    by (simp_all add: zero_wait_command_def NewCommand_def GetIntParameter_def)
  have n: "intent no_seconds_command = ''set_max_wait_time''"
    "GetIntParameter no_seconds_command ''seconds'' = None"
    by (simp_all add: no_seconds_command_def NewCommand_def GetIntParameter_def)
  have c: "intent zero_count_command = ''show_next_ads''"
    "GetIntParameter zero_count_command ''count'' = Some 0"
    by (simp_all add: zero_count_command_def NewCommand_def GetIntParameter_def)
  have w: "intent waiting_command = ''waiting_ads''"
    "GetIntParameter waiting_command ''minutes'' = Some 5"
    by (simp_all add: waiting_command_def NewCommand_def GetIntParameter_def)
  have a: "intent by_age_command = ''change_priority_by_age''"
    "GetIntParameter by_age_command ''priority'' = Some 2"
    "GetIntParameter by_age_command ''minutes'' = Some 15"
    by (simp_all add: by_age_command_def NewCommand_def GetIntParameter_def)
  have f: "intent by_family_command = ''change_priority_by_game_family''"
    "GetIntParameter by_family_command ''priority'' = Some 5"
    "GetStringParameter by_family_command ''gameFamily'' = Some ''rpg-fantasy''"
    by (simp_all add: by_family_command_def NewCommand_def GetIntParameter_def
        GetStringParameter_def truncate_float_def)
  have msg: "ValidateCommand no_seconds_command = Some ''missing seconds parameter''"
    using n by (simp add: ValidateCommand_def)
  show ?thesis
    using ValidateCommand_required_parameters [of zero_wait_command]
      ValidateCommand_required_parameters [of no_seconds_command "''seconds''"
        "''missing seconds parameter''" "\<lambda>c. True" "\<lambda>c. (c, None)" 1700000001000000000]
      ValidateCommand_required_parameters [of zero_count_command]
      ValidateCommand_required_parameters [of waiting_command]
      ValidateCommand_required_parameters [of by_age_command]
      ValidateCommand_required_parameters [of by_family_command]
      z n c w a f msg
    by simp
qed

end
